theory Spec2Isabelle
  imports Complex_Main
begin

section \<open>Errors, tensors and configuration\<close>

text \<open>
  The model follows \<^verbatim>\<open>src/model/bgem3.py\<close>. Python exceptions are values of
  \<open>error\<close>; a function that can raise returns \<open>error + 'a\<close>. Floating-point
  numbers are read as exact reals, so every statement below is one of exact arithmetic.
  A float result that is infinite or not a number (division by a zero temperature, the
  mean over an empty batch) has no real value and is reported as \<open>NonFinite\<close>.
\<close>

datatype error =
  TypeError | KeyError | ValueError | IndexError | RuntimeError
  | ZeroDivisionError | AttributeError | NonFinite

type_synonym vec = "real list"
type_synonym mat = "vec list"
type_synonym cube = "mat list"

text \<open>
  A tensor is a nested list along its axes, tagged with its number of axes (what
  \<^verbatim>\<open>len(t.size())\<close> reads). Tensors are rectangular; an axis of size zero carries no
  record of the sizes of the axes inside it.
\<close>

datatype tensor = T0 real | T1 vec | T2 mat | T3 cube

text \<open>
  The fields of \<^verbatim>\<open>ModelArguments\<close> (declared in \<^verbatim>\<open>utils/arguments.py\<close>) that
  \<^verbatim>\<open>__init__\<close> and \<^verbatim>\<open>load_model\<close> read.
\<close>

record ModelArguments =
  model_path :: string
  tokenizer_path :: string
  train_with_qlora :: bool
  model_with_fp16 :: bool
  train_with_lora :: bool
  lora_modules :: "string list"
  lora_with_fp16 :: bool
  args_normlized :: bool
  args_temperature :: real
  encode_sub_batch_size :: "int option"

datatype dtype = Float32 | Float16 | BFloat16

text \<open>
  What \<^verbatim>\<open>load_model\<close> asks of the external loaders: the checkpoint, its precision,
  4-bit quantisation, the adapter and the two switches of
  \<^verbatim>\<open>gradient_checkpointing_enable\<close>.
\<close>

record encoder_handle =
  checkpoint :: string
  precision :: dtype
  four_bit :: bool
  lora_targets :: "string list option"
  lora_half :: bool
  input_require_grads :: bool
  gradient_checkpointing :: bool

record model_state =
  model :: encoder_handle
  tokenizer :: string
  normlized :: bool
  temperature :: real
  sub_batch_size :: "int option"

definition load_model :: "ModelArguments \<Rightarrow> encoder_handle \<times> string" where
  "load_model model_load_args =
     (let m0 = (if train_with_qlora model_load_args
                then \<lparr>checkpoint = model_path model_load_args, precision = BFloat16,
                      four_bit = True, lora_targets = None, lora_half = False,
                      input_require_grads = False, gradient_checkpointing = False\<rparr>
                else \<lparr>checkpoint = model_path model_load_args,
                      precision = (if model_with_fp16 model_load_args then Float16 else Float32),
                      four_bit = False, lora_targets = None, lora_half = False,
                      input_require_grads = False, gradient_checkpointing = False\<rparr>);
          tok = tokenizer_path model_load_args;
          m1 = (if train_with_lora model_load_args
                then m0\<lparr>lora_targets := Some (lora_modules model_load_args),
                        lora_half := lora_with_fp16 model_load_args\<rparr>
                else m0)
      in (m1, tok))"

definition init :: "ModelArguments \<Rightarrow> model_state" where
  "init model_args =
     (let (m, tok) = load_model model_args;
          st = \<lparr>model = m, tokenizer = tok,
                normlized = args_normlized model_args,
                temperature = args_temperature model_args,
                sub_batch_size = encode_sub_batch_size model_args\<rparr>
      in if \<not> args_normlized model_args then st\<lparr>temperature := 1\<rparr> else st)"


section \<open>Similarity and scores\<close>

definition dot :: "vec \<Rightarrow> vec \<Rightarrow> real" where
  "dot u v = sum_list (map2 (*) u v)"

text \<open>
  \<^verbatim>\<open>torch.matmul(q, p.transpose(-2, -1))\<close> for two matrices \<open>q : [b, d]\<close> and
  \<open>p : [m, d]\<close>; the inner sizes must agree.
\<close>

definition matmul_t :: "mat \<Rightarrow> mat \<Rightarrow> error + mat" where
  "matmul_t q p =
     (if \<forall>u \<in> set q. \<forall>v \<in> set p. length u = length v
      then Inr (map (\<lambda>u. map (dot u) p) q)
      else Inl RuntimeError)"

fun collect :: "(error + 'a) list \<Rightarrow> error + 'a list" where
  "collect [] = Inr []"
| "collect (x # xs) =
     (case x of Inl e \<Rightarrow> Inl e
      | Inr v \<Rightarrow> (case collect xs of Inl e \<Rightarrow> Inl e | Inr vs \<Rightarrow> Inr (v # vs)))"

text \<open>
  With a 3-axis \<open>p : [k, n, d]\<close>, \<^verbatim>\<open>torch.matmul\<close> broadcasts the matrix \<open>q\<close>
  over the leading axis of \<open>p\<close>: the product has one \<open>[b, n]\<close> matrix for each of the
  \<open>k\<close> slices of \<open>p\<close>. A tensor of fewer than two axes has no axis \<open>-2\<close> to transpose.
\<close>

definition compute_similarity :: "mat \<Rightarrow> tensor \<Rightarrow> error + tensor" where
  "compute_similarity q_reps p_reps =
     (case p_reps of
        T2 p \<Rightarrow> map_sum id T2 (matmul_t q_reps p)
      | T3 p \<Rightarrow> map_sum id T3 (collect (map (matmul_t q_reps) p))
      | _ \<Rightarrow> Inl IndexError)"

fun flat :: "tensor \<Rightarrow> real list" where
  "flat (T0 x) = [x]"
| "flat (T1 v) = v"
| "flat (T2 m) = concat m"
| "flat (T3 c) = concat (concat c)"

text \<open>
  \<^verbatim>\<open>t.view(b, -1)\<close>: the elements in row-major order, cut into \<open>b\<close> rows of equal
  length. It fails when \<open>b\<close> is zero or does not divide the number of elements.
\<close>

definition view_rows :: "nat \<Rightarrow> real list \<Rightarrow> error + mat" where
  "view_rows b xs =
     (if b = 0 \<or> length xs mod b \<noteq> 0 then Inl RuntimeError
      else Inr (map (\<lambda>i. take (length xs div b) (drop (i * (length xs div b)) xs)) [0..<b]))"

definition dense_score :: "model_state \<Rightarrow> mat \<Rightarrow> tensor \<Rightarrow> error + mat" where
  "dense_score st q_reps p_reps =
     (case compute_similarity q_reps p_reps of
        Inl e \<Rightarrow> Inl e
      | Inr s \<Rightarrow>
          (case view_rows (length q_reps) (flat s) of
             Inl e \<Rightarrow> Inl e
           | Inr scores \<Rightarrow>
               if temperature st = 0 then Inl NonFinite
               else Inr (map (map (\<lambda>x. x / temperature st)) scores)))"

section \<open>The batched encoder\<close>

text \<open>
  A feature batch is a dictionary from field names to tensors, each given as the list of
  its rows along the batch axis. The pretrained encoder is external; it is taken as a
  function \<open>f\<close> of one example (the fields of one row) that returns the hidden state at
  the first sequence position. It rejects an empty dictionary and fields whose batch
  sizes differ. On a batch with no rows this stand-in returns the empty batch; what the
  real encoder does there lies outside the model.
\<close>

type_synonym 'a features = "(string \<times> 'a list) list"

definition slice :: "'a list \<Rightarrow> nat \<Rightarrow> nat \<Rightarrow> 'a list" where
  "slice v i j = take (j - i) (drop i v)"

definition batch_rows :: "'a features \<Rightarrow> nat \<Rightarrow> (string \<times> 'a) list list" where
  "batch_rows feats n = map (\<lambda>i. map (\<lambda>(k, v). (k, v ! i)) feats) [0..<n]"

definition run_model :: "((string \<times> 'a) list \<Rightarrow> vec) \<Rightarrow> 'a features \<Rightarrow> error + mat" where
  "run_model f feats =
     (case feats of
        [] \<Rightarrow> Inl ValueError
      | (k, v) # rest \<Rightarrow>
          if \<forall>(k', v') \<in> set rest. length v' = length v
          then Inr (map f (batch_rows feats (length v)))
          else Inl RuntimeError)"

definition l2norm :: "vec \<Rightarrow> real" where
  "l2norm v = sqrt (sum_list (map (\<lambda>x. x * x) v))"

text \<open>\<^verbatim>\<open>F.normalize(v, dim=-1)\<close> divides by \<open>max(\<parallel>v\<parallel>, eps)\<close> with \<open>eps = 1e-12\<close>.\<close>

definition normalize :: "vec \<Rightarrow> vec" where
  "normalize v = map (\<lambda>x. x / max (l2norm v) (1 / 10 ^ 12)) v"

text \<open>The method \<^verbatim>\<open>_encode\<close>.\<close>

definition encode_inner ::
  "model_state \<Rightarrow> ((string \<times> 'a) list \<Rightarrow> vec) \<Rightarrow> 'a features \<Rightarrow> error + mat" where
  "encode_inner st f features =
     (case run_model f features of
        Inl e \<Rightarrow> Inl e
      | Inr dense_vecs \<Rightarrow> Inr (if normlized st then map normalize dense_vecs else dense_vecs))"

text \<open>
  The loop of \<^verbatim>\<open>encode\<close> over \<^verbatim>\<open>range(0, n, sub_batch_size)\<close> for a positive
  step \<open>s\<close>, from start index \<open>i\<close>: the list of the encoded chunks.
\<close>

function sub_batches ::
  "model_state \<Rightarrow> ((string \<times> 'a) list \<Rightarrow> vec) \<Rightarrow> 'a features \<Rightarrow> nat \<Rightarrow> nat \<Rightarrow> nat
     \<Rightarrow> error + mat list" where
  "sub_batches st f features i n s =
     (if s = 0 \<or> n \<le> i then Inr []
      else (case encode_inner st f (map (\<lambda>(k, v). (k, slice v i (min (i + s) n))) features) of
              Inl e \<Rightarrow> Inl e
            | Inr d \<Rightarrow>
                (case sub_batches st f features (i + s) n s of
                   Inl e \<Rightarrow> Inl e
                 | Inr ds \<Rightarrow> Inr (d # ds))))"
  by pat_completeness auto
termination
  by (relation "measure (\<lambda>(st, f, features, i, n, s). n - i)") auto

declare sub_batches.simps [simp del]

text \<open>
  \<^verbatim>\<open>encode\<close>. A missing \<^verbatim>\<open>attention_mask\<close> is a KeyError, a step of zero a
  ValueError of \<^verbatim>\<open>range\<close>; a negative step other than \<open>-1\<close> gives an empty range,
  and \<^verbatim>\<open>torch.cat\<close> of an empty list raises.
\<close>

definition encode ::
  "model_state \<Rightarrow> ((string \<times> 'a) list \<Rightarrow> vec) \<Rightarrow> 'a features option \<Rightarrow> error + mat option" where
  "encode st f features =
     (case features of
        None \<Rightarrow> Inr None
      | Some feats \<Rightarrow>
          if sub_batch_size st \<noteq> None \<and> sub_batch_size st \<noteq> Some (- 1)
          then (case map_of feats ''attention_mask'' of
                  None \<Rightarrow> Inl KeyError
                | Some am \<Rightarrow>
                    let s = the (sub_batch_size st) in
                    if s = 0 then Inl ValueError
                    else (case (if s < 0 then Inr []
                                else sub_batches st f feats 0 (length am) (nat s)) of
                            Inl e \<Rightarrow> Inl e
                          | Inr all_dense_vecs \<Rightarrow>
                              if all_dense_vecs = [] then Inl RuntimeError
                              else Inr (Some (concat all_dense_vecs))))
          else map_sum id Some (encode_inner st f feats))"

text \<open>
  A well-formed feature batch of \<open>n\<close> examples: the attention mask is present and
  every field has \<open>n\<close> rows.
\<close>

definition wf_features :: "'a features \<Rightarrow> nat \<Rightarrow> bool" where
  "wf_features feats n =
     (map_of feats ''attention_mask'' \<noteq> None \<and> (\<forall>(k, v) \<in> set feats. length v = n))"

text \<open>
  The \<open>j\<close>-th contiguous chunk of size \<open>s\<close> of a batch of \<open>n\<close> examples, as the
  specification describes the partition: the rows from \<open>j * s\<close> up to
  \<open>min (j * s + s) n\<close>.
\<close>

definition chunk :: "'a features \<Rightarrow> nat \<Rightarrow> nat \<Rightarrow> nat \<Rightarrow> 'a features" where
  "chunk feats n s j = map (\<lambda>(k, v). (k, slice v (j * s) (min (j * s + s) n))) feats"

text \<open>What one example's embedding is: the pooled state, normalised iff configured.\<close>

definition row_embed :: "model_state \<Rightarrow> ('r \<Rightarrow> vec) \<Rightarrow> 'r \<Rightarrow> vec" where
  "row_embed st f r = (if normlized st then normalize (f r) else f r)"



section \<open>The training objective\<close>

text \<open>
  \<^verbatim>\<open>nn.CrossEntropyLoss(reduction='mean')\<close> on logits \<open>[B, C]\<close> and class indices
  \<open>[B]\<close>: the mean over the rows of \<open>log (\<Sum>j. exp x\<^sub>j) - x\<^sub>t\<close>. The mean over no rows
  is not a number.
\<close>

definition cross_entropy :: "mat \<Rightarrow> nat list \<Rightarrow> error + real" where
  "cross_entropy input target =
     (if length input \<noteq> length target then Inl ValueError
      else if \<exists>(x, t) \<in> set (zip input target). length x \<le> t then Inl IndexError
      else if input = [] then Inl NonFinite
      else Inr (sum_list (map2 (\<lambda>x t. ln (sum_list (map exp x)) - x ! t) input target)
                  / real (length input)))"

fun size0 :: "tensor \<Rightarrow> error + nat" where
  "size0 (T0 x) = Inl IndexError"
| "size0 (T1 v) = Inr (length v)"
| "size0 (T2 m) = Inr (length m)"
| "size0 (T3 c) = Inr (length c)"

text \<open>Lines 106 to 108: the target indices. The division is Python's \<^verbatim>\<open>//\<close>.\<close>

definition loss_targets :: "mat \<Rightarrow> tensor \<Rightarrow> error + nat list" where
  "loss_targets q_dense_vecs p_dense_vecs =
     (let idxs = [0..<length q_dense_vecs] in
      case size0 p_dense_vecs of
        Inl e \<Rightarrow> Inl e
      | Inr np \<Rightarrow>
          if length q_dense_vecs = 0 then Inl ZeroDivisionError
          else Inr (map (\<lambda>i. i * (np div length q_dense_vecs)) idxs))"

definition entity_reconstruction_loss :: "model_state \<Rightarrow> mat \<Rightarrow> tensor \<Rightarrow> error + real" where
  "entity_reconstruction_loss st q_dense_vecs p_dense_vecs =
     (case loss_targets q_dense_vecs p_dense_vecs of
        Inl e \<Rightarrow> Inl e
      | Inr targets \<Rightarrow>
          (case dense_score st q_dense_vecs p_dense_vecs of
             Inl e \<Rightarrow> Inl e
           | Inr dense_scores \<Rightarrow> cross_entropy dense_scores targets))"

text \<open>\<^verbatim>\<open>x[:, 0, :]\<close> and \<^verbatim>\<open>x[:, 1:, :]\<close> on a tensor \<open>[b, N, d]\<close>.\<close>

definition select0 :: "cube \<Rightarrow> error + mat" where
  "select0 x = (if \<exists>g \<in> set x. g = [] then Inl IndexError else Inr (map hd x))"

definition from1 :: "cube \<Rightarrow> cube" where
  "from1 x = map (drop 1) x"

text \<open>
  Elementwise arithmetic of two matrices with torch's broadcasting: along each axis the
  sizes agree or one of them is 1.
\<close>

definition bc_vec :: "(real \<Rightarrow> real \<Rightarrow> real) \<Rightarrow> vec \<Rightarrow> vec \<Rightarrow> error + vec" where
  "bc_vec g u v =
     (if length u = length v then Inr (map2 g u v)
      else if length u = 1 then Inr (map (g (hd u)) v)
      else if length v = 1 then Inr (map (\<lambda>x. g x (hd v)) u)
      else Inl RuntimeError)"

definition bc_mat :: "(real \<Rightarrow> real \<Rightarrow> real) \<Rightarrow> mat \<Rightarrow> mat \<Rightarrow> error + mat" where
  "bc_mat g a b =
     (if length a = length b then collect (map2 (bc_vec g) a b)
      else if length a = 1 then collect (map (bc_vec g (hd a)) b)
      else if length b = 1 then collect (map (\<lambda>u. bc_vec g u (hd b)) a)
      else Inl RuntimeError)"

text \<open>
  \<^verbatim>\<open>InfoNCE(negative_mode="paired")\<close> lives in \<^verbatim>\<open>utils/info_nce.py\<close>; it is the
  parameter \<open>info_nce\<close>, called with the anchors, the positives and the paired
  negatives. A link description that is \<^verbatim>\<open>None\<close> cannot be added to a tensor.
\<close>

definition kg_embed_loss ::
  "(mat \<Rightarrow> mat \<Rightarrow> cube \<Rightarrow> error + real) \<Rightarrow> cube \<Rightarrow> mat option \<Rightarrow> cube
     \<Rightarrow> error + real \<times> real" where
  "kg_embed_loss info_nce head link_desc tail =
     (case select0 head of
        Inl e \<Rightarrow> Inl e
      | Inr head_pos \<Rightarrow>
     (let head_neg = from1 head in
      case select0 tail of
        Inl e \<Rightarrow> Inl e
      | Inr tail_pos \<Rightarrow>
     (let tail_neg = from1 tail in
      case link_desc of
        None \<Rightarrow> Inl TypeError
      | Some link \<Rightarrow>
     (case bc_mat (+) head_pos link of
        Inl e \<Rightarrow> Inl e
      | Inr fwd_anchor \<Rightarrow>
     (case info_nce fwd_anchor tail_pos tail_neg of
        Inl e \<Rightarrow> Inl e
      | Inr fwd \<Rightarrow>
     (case bc_mat (-) tail_pos link of
        Inl e \<Rightarrow> Inl e
      | Inr bwd_anchor \<Rightarrow>
     (case info_nce bwd_anchor head_pos head_neg of
        Inl e \<Rightarrow> Inl e
      | Inr bwd \<Rightarrow> Inr (fwd, bwd))))))))"

text \<open>
  \<^verbatim>\<open>torch.stack(list(map(self.encode, x)), dim=1)\<close>: the members of a group are
  encoded one by one and stacked along a new second axis. Stacking needs at least one
  tensor, all of one shape, and no \<^verbatim>\<open>None\<close>.
\<close>

definition stack_dim1 :: "mat list \<Rightarrow> error + cube" where
  "stack_dim1 ms =
     (case ms of
        [] \<Rightarrow> Inl RuntimeError
      | m # rest \<Rightarrow>
          if \<forall>m' \<in> set rest. map length m' = map length m
          then Inr (map (\<lambda>i. map (\<lambda>m'. m' ! i) ms) [0..<length m])
          else Inl RuntimeError)"

definition encode_stack ::
  "model_state \<Rightarrow> ((string \<times> 'a) list \<Rightarrow> vec) \<Rightarrow> 'a features option list \<Rightarrow> error + cube" where
  "encode_stack st f x =
     (case collect (map (encode st f) x) of
        Inl e \<Rightarrow> Inl e
      | Inr rs \<Rightarrow> if None \<in> set rs then Inl TypeError else stack_dim1 (map the rs))"

text \<open>\<^verbatim>\<open>torch.cat(\<dots>, dim=0)\<close> of two tensors: the inner sizes must agree.\<close>

definition cat_mat :: "mat \<Rightarrow> mat \<Rightarrow> error + mat" where
  "cat_mat a b =
     (if \<forall>u \<in> set a. \<forall>v \<in> set b. length u = length v then Inr (a @ b) else Inl RuntimeError)"

definition cat_cube :: "cube \<Rightarrow> cube \<Rightarrow> error + cube" where
  "cat_cube a b =
     (if \<forall>x \<in> set a. \<forall>y \<in> set b. map length x = map length y then Inr (a @ b)
      else Inl RuntimeError)"

text \<open>Lines 131 and 132 of \<^verbatim>\<open>forward\<close>: the retrieval queries and passages.\<close>

definition retrieval_inputs :: "cube \<Rightarrow> cube \<Rightarrow> cube \<Rightarrow> cube \<Rightarrow> error + mat \<times> cube" where
  "retrieval_inputs head head_desc tail tail_desc =
     (case select0 head of
        Inl e \<Rightarrow> Inl e
      | Inr head_pos \<Rightarrow>
     (case select0 tail of
        Inl e \<Rightarrow> Inl e
      | Inr tail_pos \<Rightarrow>
     (case cat_mat head_pos tail_pos of
        Inl e \<Rightarrow> Inl e
      | Inr query \<Rightarrow>
     (case cat_cube head_desc tail_desc of
        Inl e \<Rightarrow> Inl e
      | Inr passage \<Rightarrow> Inr (query, passage)))))"

text \<open>Lines 131 to 134: \<open>loss1\<close>, from the encoded groups.\<close>

definition forward_loss1 :: "model_state \<Rightarrow> cube \<Rightarrow> cube \<Rightarrow> cube \<Rightarrow> cube \<Rightarrow> error + real" where
  "forward_loss1 st head head_desc tail tail_desc =
     (case retrieval_inputs head head_desc tail tail_desc of
        Inl e \<Rightarrow> Inl e
      | Inr (query, passage) \<Rightarrow> entity_reconstruction_loss st query (T3 passage))"

definition forward ::
  "model_state \<Rightarrow> ((string \<times> 'a) list \<Rightarrow> vec) \<Rightarrow> (mat \<Rightarrow> mat \<Rightarrow> cube \<Rightarrow> error + real)
     \<Rightarrow> 'a features option list \<times> 'a features option list \<times> 'a features option
         \<times> 'a features option list \<times> 'a features option list
     \<Rightarrow> error + real" where
  "forward st f info_nce inputs =
     (case inputs of (head, head_desc, link_desc, tail, tail_desc) \<Rightarrow>
     (case encode_stack st f head of
        Inl e \<Rightarrow> Inl e
      | Inr head \<Rightarrow>
     (case encode_stack st f head_desc of
        Inl e \<Rightarrow> Inl e
      | Inr head_desc \<Rightarrow>
     (case encode_stack st f tail of
        Inl e \<Rightarrow> Inl e
      | Inr tail \<Rightarrow>
     (case encode_stack st f tail_desc of
        Inl e \<Rightarrow> Inl e
      | Inr tail_desc \<Rightarrow>
     (case encode st f link_desc of
        Inl e \<Rightarrow> Inl e
      | Inr link_desc \<Rightarrow>
     (case forward_loss1 st head head_desc tail tail_desc of
        Inl e \<Rightarrow> Inl e
      | Inr loss1 \<Rightarrow>
     (case kg_embed_loss info_nce head link_desc tail of
        Inl e \<Rightarrow> Inl e
      | Inr (loss2, loss3) \<Rightarrow> Inr ((loss1 + loss2 + loss3) / 3)))))))))"

text \<open>
  The 3-axis case of the similarity as the specification words it: one row per query,
  the dot products of query \<open>i\<close> with its own candidate set \<open>P\<^sub>i\<close>.
\<close>

definition per_query_similarity :: "mat \<Rightarrow> cube \<Rightarrow> mat" where
  "per_query_similarity q p = map2 (\<lambda>u m. map (dot u) m) q p"

definition is_mat :: "mat \<Rightarrow> nat \<Rightarrow> nat \<Rightarrow> bool" where
  "is_mat m b d = (length m = b \<and> (\<forall>v \<in> set m. length v = d))"

definition is_cube :: "cube \<Rightarrow> nat \<Rightarrow> nat \<Rightarrow> nat \<Rightarrow> bool" where
  "is_cube c b n d = (length c = b \<and> (\<forall>g \<in> set c. is_mat g n d))"

section \<open>The inference classes\<close>

text \<open>
  Python binds the arguments of a call to the parameters of the callee before its body
  runs. \<open>bind_args\<close> does so for parameters given as names with optional defaults
  (\<^verbatim>\<open>self\<close> left out): more positional arguments than parameters, a keyword that
  names no parameter or one already bound, and a parameter left without a value are
  each a TypeError.
\<close>

datatype 'a pyval =
  PNone | PBool bool | PInt int | PFloat real | PStr string
  | PArgs ModelArguments | PFeat "'a features"

definition bind_args ::
  "(string \<times> 'v option) list \<Rightarrow> 'v list \<Rightarrow> (string \<times> 'v) list \<Rightarrow> error + (string \<times> 'v) list" where
  "bind_args params pos kw =
     (if length params < length pos then Inl TypeError
      else
        let bound = zip (map fst params) pos in
        if \<exists>(k, v) \<in> set kw. k \<notin> set (map fst params) \<or> k \<in> set (map fst bound)
        then Inl TypeError
        else if \<not> distinct (map fst kw) then Inl TypeError
        else
          (case collect (map (\<lambda>(k, d).
                    case map_of kw k of
                      Some v \<Rightarrow> Inr (k, v)
                    | None \<Rightarrow> (case d of Some v \<Rightarrow> Inr (k, v) | None \<Rightarrow> Inl TypeError))
                  (drop (length pos) params)) of
             Inl e \<Rightarrow> Inl e
           | Inr rest \<Rightarrow> Inr (bound @ rest)))"

definition arg :: "(string \<times> 'v) list \<Rightarrow> string \<Rightarrow> 'v" where
  "arg bound k = the (map_of bound k)"

text \<open>
  Calling the class \<^verbatim>\<open>M3DenseEmbedModel\<close>: its \<^verbatim>\<open>__init__\<close> has the one parameter
  \<^verbatim>\<open>model_args\<close>. The result comes with the list of the checkpoints that were loaded
  on the way. A value that is no \<^verbatim>\<open>ModelArguments\<close> has none of the attributes
  \<^verbatim>\<open>load_model\<close> reads first.
\<close>

definition M3DenseEmbedModel ::
  "'a pyval list \<Rightarrow> (string \<times> 'a pyval) list \<Rightarrow> string list \<times> (error + model_state)" where
  "M3DenseEmbedModel pos kw =
     (case bind_args [(''model_args'', None)] pos kw of
        Inl e \<Rightarrow> ([], Inl e)
      | Inr bound \<Rightarrow>
          (case arg bound ''model_args'' of
             PArgs model_args \<Rightarrow>
               ([model_path model_args, tokenizer_path model_args], Inr (init model_args))
           | _ \<Rightarrow> ([], Inl AttributeError)))"

text \<open>
  \<^verbatim>\<open>encode\<close> as a call with Python arguments: its signature is
  \<^verbatim>\<open>encode(self, features=None)\<close>.
\<close>

definition encode_call ::
  "model_state \<Rightarrow> ((string \<times> 'a) list \<Rightarrow> vec) \<Rightarrow> 'a pyval list \<Rightarrow> (string \<times> 'a pyval) list
     \<Rightarrow> error + mat option" where
  "encode_call st f pos kw =
     (case bind_args [(''features'', Some PNone)] pos kw of
        Inl e \<Rightarrow> Inl e
      | Inr bound \<Rightarrow>
          (case arg bound ''features'' of
             PNone \<Rightarrow> encode st f None
           | PFeat features \<Rightarrow> encode st f (Some features)
           | _ \<Rightarrow> Inl TypeError))"

record environment =
  cuda_available :: bool
  device_count :: nat

record serving_state =
  base :: model_state
  device :: string
  num_gpus :: nat
  data_parallel :: bool

record 'a score_state =
  serving :: serving_state
  batch_size :: "'a pyval"
  max_length :: int

definition truthy :: "'a pyval \<Rightarrow> bool" where
  "truthy v =
     (case v of
        PNone \<Rightarrow> False | PBool b \<Rightarrow> b | PInt i \<Rightarrow> i \<noteq> 0 | PFloat x \<Rightarrow> x \<noteq> 0
      | PStr s \<Rightarrow> s \<noteq> [] | PArgs a \<Rightarrow> True | PFeat f \<Rightarrow> f \<noteq> [])"

text \<open>The device and precision part shared by the two subclass constructors.\<close>

definition place :: "environment \<Rightarrow> model_state \<Rightarrow> 'a pyval \<Rightarrow> 'a pyval \<Rightarrow> serving_state" where
  "place env st use_fp16 dev =
     (let on_cuda = (cuda_available env \<and> dev = PStr ''cuda'');
          half = (if on_cuda then truthy use_fp16 else False);
          m = (if half then (model st)\<lparr>precision := Float16\<rparr> else model st)
      in \<lparr>base = st\<lparr>model := m\<rparr>,
          device = (if on_cuda then ''cuda'' else ''cpu''),
          num_gpus = device_count env,
          data_parallel = (1 < device_count env)\<rparr>)"

definition M3ForInference ::
  "environment \<Rightarrow> 'a pyval list \<Rightarrow> (string \<times> 'a pyval) list
     \<Rightarrow> string list \<times> (error + serving_state)" where
  "M3ForInference env pos kw =
     (case bind_args
             [(''model_load_args'', Some PNone), (''normlized'', Some (PBool True)),
              (''sentence_pooling_method'', Some (PStr ''cls'')), (''temperature'', Some (PFloat 1)),
              (''use_fp16'', Some (PBool True)), (''device'', Some (PStr ''cpu''))] pos kw of
        Inl e \<Rightarrow> ([], Inl e)
      | Inr a \<Rightarrow>
          (case M3DenseEmbedModel []
                  [(''model_load_args'', arg a ''model_load_args''),
                   (''normlized'', arg a ''normlized''),
                   (''sentence_pooling_method'', arg a ''sentence_pooling_method''),
                   (''temperature'', arg a ''temperature''),
                   (''enable_sub_batch'', PBool False)] of
             (loads, Inl e) \<Rightarrow> (loads, Inl e)
           | (loads, Inr st) \<Rightarrow> (loads, Inr (place env st (arg a ''use_fp16'') (arg a ''device'')))))"

definition M3ForScore ::
  "environment \<Rightarrow> 'a pyval list \<Rightarrow> (string \<times> 'a pyval) list
     \<Rightarrow> string list \<times> (error + 'a score_state)" where
  "M3ForScore env pos kw =
     (case bind_args
             [(''model_load_args'', None), (''normlized'', Some (PBool True)),
              (''sentence_pooling_method'', Some (PStr ''cls'')), (''temperature'', Some (PFloat 1)),
              (''use_fp16'', Some (PBool True)), (''device'', Some (PStr ''cpu'')),
              (''batch_size'', Some (PInt 512))] pos kw of
        Inl e \<Rightarrow> ([], Inl e)
      | Inr a \<Rightarrow>
          (case M3DenseEmbedModel []
                  [(''model_load_args'', arg a ''model_load_args''),
                   (''normlized'', arg a ''normlized''),
                   (''sentence_pooling_method'', arg a ''sentence_pooling_method''),
                   (''temperature'', arg a ''temperature''),
                   (''enable_sub_batch'', PBool False)] of
             (loads, Inl e) \<Rightarrow> (loads, Inl e)
           | (loads, Inr st) \<Rightarrow>
               (loads, Inr \<lparr>serving = place env st (arg a ''use_fp16'') (arg a ''device''),
                            batch_size = arg a ''batch_size'', max_length = 8192\<rparr>)))"

text \<open>
  \<^verbatim>\<open>M3ForInference.__call__\<close>. The tokenizer is external: the parameter \<open>tok\<close>, from
  the sentences and \<^verbatim>\<open>max_length\<close> to a feature batch.
\<close>

datatype sentences = Single string | Several "string list"

definition inference_call ::
  "serving_state \<Rightarrow> ((string \<times> 'a) list \<Rightarrow> vec) \<Rightarrow> (string list \<Rightarrow> int \<Rightarrow> error + 'a features)
     \<Rightarrow> sentences \<Rightarrow> 'a pyval \<Rightarrow> int \<Rightarrow> error + tensor option" where
  "inference_call sv f tok sentences bsz max_len =
     (let (sentences', bsz', input_was_string) =
            (case sentences of
               Single s \<Rightarrow> ([s], PNone, True)
             | Several ss \<Rightarrow> (ss, bsz, False))
      in case tok sentences' max_len of
           Inl e \<Rightarrow> Inl e
         | Inr inputs \<Rightarrow>
             (case encode_call (base sv) f [PFeat inputs, bsz'] [] of
                Inl e \<Rightarrow> Inl e
              | Inr all_embeddings \<Rightarrow>
                  if input_was_string
                  then (case all_embeddings of
                          None \<Rightarrow> Inl TypeError
                        | Some [] \<Rightarrow> Inl IndexError
                        | Some (v # rest) \<Rightarrow> Inr (Some (T1 v)))
                  else Inr (map_option T2 all_embeddings)))"

text \<open>
  \<^verbatim>\<open>squeeze_\<close> drops every axis of size 1; \<^verbatim>\<open>len\<close> of a tensor without axes is a
  TypeError; \<^verbatim>\<open>topk(k)\<close> gives the indices of the \<open>k\<close> largest entries along the
  last axis, largest first (equal scores are taken here in index order), and fails when
  \<open>k\<close> is negative or exceeds the size.
\<close>

definition squeeze :: "mat \<Rightarrow> tensor" where
  "squeeze m =
     (case m of
        [] \<Rightarrow> T2 []
      | [v] \<Rightarrow> (case v of [x] \<Rightarrow> T0 x | _ \<Rightarrow> T1 v)
      | _ \<Rightarrow> if \<forall>v \<in> set m. length v = 1 then T1 (map hd m) else T2 m)"

datatype indices = I1 "nat list" | I2 "nat list list"

definition topk_row :: "vec \<Rightarrow> nat \<Rightarrow> nat list" where
  "topk_row v k = take k (sort_key (\<lambda>i. - (v ! i)) [0..<length v])"

definition select_topk ::
  "'a score_state \<Rightarrow> ((string \<times> 'a) list \<Rightarrow> vec) \<Rightarrow> (string list \<Rightarrow> int \<Rightarrow> error + 'a features)
     \<Rightarrow> string \<Rightarrow> string list \<Rightarrow> int \<Rightarrow> error + indices" where
  "select_topk sc f tok query documents k =
     (case tok [query] (max_length sc) of
        Inl e \<Rightarrow> Inl e
      | Inr query \<Rightarrow>
     (case tok documents (max_length sc) of
        Inl e \<Rightarrow> Inl e
      | Inr documents \<Rightarrow>
     (case encode_call (base (serving sc)) f [PFeat query] [] of
        Inl e \<Rightarrow> Inl e
      | Inr query \<Rightarrow>
     (case encode_call (base (serving sc)) f [PFeat documents, batch_size sc] [] of
        Inl e \<Rightarrow> Inl e
      | Inr documents \<Rightarrow>
     (case (query, documents) of
        (Some q, Some d) \<Rightarrow>
          (case dense_score (base (serving sc)) q (T2 d) of
             Inl e \<Rightarrow> Inl e
           | Inr scores \<Rightarrow>
               (case squeeze scores of
                  T1 v \<Rightarrow>
                    (let k' = min k (int (length v)) in
                     if k' < 0 then Inl RuntimeError else Inr (I1 (topk_row v (nat k'))))
                | T2 m \<Rightarrow>
                    (let k' = min k (int (length m)) in
                     if k' < 0 \<or> (\<exists>v \<in> set m. int (length v) < k') then Inl RuntimeError
                     else Inr (I2 (map (\<lambda>v. topk_row v (nat k')) m)))
                | _ \<Rightarrow> Inl TypeError))
      | _ \<Rightarrow> Inl AttributeError)))))"

section \<open>Example inputs\<close>

text \<open>
  A configuration, an encoder that returns the token ids of an example as its hidden
  state, and a tokenizer that gives each sentence the single token that is its length.
\<close>

definition example_args :: ModelArguments where
  "example_args =
     \<lparr>model_path = ''bge-m3'', tokenizer_path = ''bge-m3'', train_with_qlora = False,
      model_with_fp16 = False, train_with_lora = False, lora_modules = [],
      lora_with_fp16 = False, args_normlized = False, args_temperature = 1,
      encode_sub_batch_size = Some 2\<rparr>"

definition ids_encoder :: "(string \<times> nat list) list \<Rightarrow> vec" where
  "ids_encoder row = (case map_of row ''input_ids'' of None \<Rightarrow> [] | Some ids \<Rightarrow> map real ids)"

definition length_tokenizer :: "string list \<Rightarrow> int \<Rightarrow> error + nat list features" where
  "length_tokenizer ss max_len =
     Inr [(''input_ids'', map (\<lambda>s. take (nat max_len) [length s]) ss),
          (''attention_mask'', map (\<lambda>s. take (nat max_len) [1]) ss)]"

definition example_features :: "nat list features" where
  "example_features =
     [(''input_ids'', [[1, 0], [0, 1], [1, 1]]),
      (''attention_mask'', [[1, 1], [1, 1], [1, 1]])]"

definition empty_features :: "nat list features" where
  "empty_features = [(''input_ids'', []), (''attention_mask'', [])]"

definition example_score_state :: "nat list score_state" where
  "example_score_state =
     \<lparr>serving = \<lparr>base = init example_args, device = ''cpu'', num_gpus = 0,
                  data_parallel = False\<rparr>,
      batch_size = PInt 512, max_length = 8192\<rparr>"

text \<open>
  Modelled from the spec: the class \<^verbatim>\<open>InfoNCE\<close> of \<^verbatim>\<open>utils/info_nce.py\<close> is not
  part of the sources. The specification gives each term as the similarity of the anchor
  with its positive against the similarities with its own paired negatives, scaled by a
  temperature, under a softmax cross-entropy with the positive as class 0, averaged over
  the batch. It serves as an instance of the parameter \<open>info_nce\<close>.
\<close>

definition info_nce_spec :: "real \<Rightarrow> mat \<Rightarrow> mat \<Rightarrow> cube \<Rightarrow> error + real" where
  "info_nce_spec tau query positive_key negative_keys =
     (if length positive_key \<noteq> length query \<or> length negative_keys \<noteq> length query
      then Inl ValueError
      else cross_entropy
             (map (\<lambda>i. map (\<lambda>k. dot (query ! i) k / tau) (positive_key ! i # negative_keys ! i))
                  [0..<length query])
             (replicate (length query) 0))"

section \<open>Properties\<close>

text \<open>
  C9. Calling \<^verbatim>\<open>encode\<close> with absent features returns the absent result
  (\<^verbatim>\<open>None\<close>) and raises nothing, whatever the configuration and the encoder.
\<close>

theorem encode_absent_is_noop: "encode st f None = Inr None"
  by (simp add: encode_def)

subsection \<open>Sub-batching\<close>

lemma wf_features_nonempty: "wf_features feats n \<Longrightarrow> feats \<noteq> []"
  by (auto simp: wf_features_def)

lemma wf_features_mask:
  "wf_features feats n \<Longrightarrow> \<exists>am. map_of feats ''attention_mask'' = Some am \<and> length am = n"
proof -
  assume w: "wf_features feats n"
  then obtain am where am: "map_of feats ''attention_mask'' = Some am"
    by (auto simp: wf_features_def)
  then have "(''attention_mask'', am) \<in> set feats" by (rule map_of_SomeD)
  with w have "length am = n" by (auto simp: wf_features_def)
  with am show ?thesis by simp
qed

lemma run_model_wf:
  assumes "wf_features feats n"
  shows "run_model f feats = Inr (map f (batch_rows feats n))"
  using assms by (cases feats) (auto simp: wf_features_def run_model_def)

lemma wf_slice:
  assumes "wf_features feats n" "i \<le> j" "j \<le> n"
  shows "wf_features (map (\<lambda>(k, v). (k, slice v i j)) feats) (j - i)"
proof -
  have "map_of (map (\<lambda>(k, v). (k, slice v i j)) feats) ''attention_mask'' \<noteq> None"
    using assms(1) by (induction feats) (auto simp: wf_features_def split: if_splits)
  then show ?thesis
    using assms by (auto simp: wf_features_def slice_def)
qed

lemma batch_rows_slice:
  assumes "wf_features feats n" "i \<le> j" "j \<le> n"
  shows "batch_rows (map (\<lambda>(k, v). (k, slice v i j)) feats) (j - i) = slice (batch_rows feats n) i j"
proof (rule nth_equalityI)
  show "length (batch_rows (map (\<lambda>(k, v). (k, slice v i j)) feats) (j - i)) = length (slice (batch_rows feats n) i j)"
    using assms by (simp add: batch_rows_def slice_def)
next
  fix t assume "t < length (batch_rows (map (\<lambda>(k, v). (k, slice v i j)) feats) (j - i))"
  then have t: "t < j - i" by (simp add: batch_rows_def)
  have "\<And>k v. (k, v) \<in> set feats \<Longrightarrow> slice v i j ! t = v ! (i + t)"
    using assms t by (auto simp: wf_features_def slice_def)
  then show "batch_rows (map (\<lambda>(k, v). (k, slice v i j)) feats) (j - i) ! t = slice (batch_rows feats n) i j ! t"
    using assms t by (auto simp: batch_rows_def slice_def)
qed

lemma encode_inner_wf:
  assumes "wf_features feats n"
  shows "encode_inner st f feats = Inr (map (row_embed st f) (batch_rows feats n))"
  using run_model_wf [OF assms, of f] by (simp add: encode_inner_def row_embed_def [abs_def])

lemma encode_inner_slice:
  assumes "wf_features feats n" "i \<le> j" "j \<le> n"
  shows "encode_inner st f (map (\<lambda>(k, v). (k, slice v i j)) feats)
           = Inr (map (row_embed st f) (slice (batch_rows feats n) i j))"
  using encode_inner_wf [OF wf_slice [OF assms], of st f] batch_rows_slice [OF assms] by simp

lemma sub_batches_done [simp]:
  "s = 0 \<or> n \<le> i \<Longrightarrow> sub_batches st f features i n s = Inr []"
  by (subst sub_batches.simps) simp

lemma sub_batches_concat:
  assumes "wf_features feats n" "0 < s"
  shows "\<exists>ds. sub_batches st f feats i n s = Inr ds
            \<and> concat ds = map (row_embed st f) (drop i (batch_rows feats n))
            \<and> (ds = [] \<longleftrightarrow> n \<le> i)"
  using assms
proof (induction st f feats i n s rule: sub_batches.induct)
  case (1 st f features i n s)
  show ?case
  proof (cases "n \<le> i")
    case True
    then show ?thesis using "1.prems" by (simp add: batch_rows_def)
  next
    case False
    let ?j = "min (i + s) n"
    have ij: "i \<le> ?j" "?j \<le> n" using False by auto
    have d: "encode_inner st f (map (\<lambda>(k, v). (k, slice v i ?j)) features)
            = Inr (map (row_embed st f) (slice (batch_rows features n) i ?j))"
      by (rule encode_inner_slice [OF "1.prems"(1) ij])
    from "1.IH" [OF _ d "1.prems"] False "1.prems"
    obtain ds where ds: "sub_batches st f features (i + s) n s = Inr ds"
      "concat ds = map (row_embed st f) (drop (i + s) (batch_rows features n))"
      by auto
    have len: "length (batch_rows features n) = n" by (simp add: batch_rows_def)
    have split: "slice (batch_rows features n) i ?j @ drop (i + s) (batch_rows features n)
               = drop i (batch_rows features n)"
    proof (cases "i + s \<le> n")
      case True
      then have "?j - i = s" by simp
      then show ?thesis
        by (simp add: slice_def add.commute [of i s] flip: drop_drop)
    next
      case False
      then show ?thesis using len by (simp add: slice_def min_def)
    qed
    have "sub_batches st f features i n s
            = Inr (map (row_embed st f) (slice (batch_rows features n) i ?j) # ds)"
      using False "1.prems"(2) d ds(1) by (subst sub_batches.simps) simp
    moreover have "concat (map (row_embed st f) (slice (batch_rows features n) i ?j) # ds)
            = map (row_embed st f) (drop i (batch_rows features n))"
      using ds(2) split by (simp flip: map_append)
    ultimately show ?thesis using False by auto
  qed
qed

lemma upt_Suc_shift: "[0..<Suc m] = 0 # map Suc [0..<m]"
  by (simp add: upt_conv_Cons map_Suc_upt del: upt_Suc)

lemma chunk_count_step:
  assumes "0 < s" "i < n"
  shows "(n - i + s - 1) div s = Suc ((n - (i + s) + s - 1) div s)"
proof (cases "i + s \<le> n")
  case True
  define a where "a = n - (i + s) + s - 1"
  have e: "n - i + s - 1 = a + s" using True assms by (simp add: a_def)
  have "(a + s) div s = Suc (a div s)" using assms by simp
  then show ?thesis by (simp only: e a_def)
next
  case False
  then have z: "n - (i + s) = 0" by simp
  have "s * 1 \<le> n - i + s - 1" "n - i + s - 1 < s * Suc 1" using False assms by auto
  then have "(n - i + s - 1) div s = 1" by (rule div_nat_eqI)
  moreover have "(s - 1) div s = 0" using assms by simp
  ultimately show ?thesis by (simp only: z) simp
qed

lemma sub_batches_unfold:
  assumes "0 < s" "i < n"
  shows "sub_batches st f features i n s
         = (case encode_inner st f (map (\<lambda>(k, v). (k, slice v i (min (i + s) n))) features) of
              Inl e \<Rightarrow> Inl e
            | Inr d \<Rightarrow> (case sub_batches st f features (i + s) n s of
                          Inl e \<Rightarrow> Inl e | Inr ds \<Rightarrow> Inr (d # ds)))"
  using assms by (subst sub_batches.simps) simp

lemma sub_batches_chunks:
  assumes "0 < s"
  shows "sub_batches st f feats i n s
           = collect (map (\<lambda>j. encode_inner st f (map (\<lambda>(k, v). (k, slice v (i + j * s) (min (i + j * s + s) n))) feats))
                          [0..<(n - i + s - 1) div s])"
  using assms
proof (induction st f feats i n s rule: sub_batches.induct)
  case (1 st f features i n s)
  let ?E = "\<lambda>a. encode_inner st f (map (\<lambda>(k, v). (k, slice v a (min (a + s) n))) features)"
  show ?case
  proof (cases "n \<le> i")
    case True
    then have "(n - i + s - 1) div s = 0" using "1.prems" by simp
    then show ?thesis using True by simp
  next
    case False
    define m where "m = (n - (i + s) + s - 1) div s"
    have cnt: "(n - i + s - 1) div s = Suc m"
      unfolding m_def using "1.prems" False by (intro chunk_count_step) auto
    have rest: "map (\<lambda>j. ?E (i + j * s)) (map Suc [0..<m]) = map (\<lambda>j. ?E (i + s + j * s)) [0..<m]"
      by (simp add: comp_def add.assoc)
    have unf: "sub_batches st f features i n s
         = (case ?E i of Inl e \<Rightarrow> Inl e
            | Inr d \<Rightarrow> (case sub_batches st f features (i + s) n s of Inl e \<Rightarrow> Inl e | Inr ds \<Rightarrow> Inr (d # ds)))"
      using False "1.prems" by (intro sub_batches_unfold) auto
    have shift: "collect (map (\<lambda>j. ?E (i + j * s)) [0..<Suc m])
               = collect (?E i # map (\<lambda>j. ?E (i + s + j * s)) [0..<m])"
      by (simp only: upt_Suc_shift list.map rest) simp
    show ?thesis
    proof (cases "?E i")
      case (Inl e)
      then show ?thesis by (simp only: cnt shift unf) simp
    next
      case (Inr d)
      have "sub_batches st f features (i + s) n s =
        collect (map (\<lambda>j. ?E (i + s + j * s)) [0..<m])"
        unfolding m_def using "1.IH" [OF _ Inr "1.prems"] False "1.prems" by simp
      then show ?thesis using Inr by (simp only: cnt shift unf) simp
    qed
  qed
qed


lemma sub_batches_as_chunks:
  assumes "0 < s"
  shows "sub_batches st f feats 0 n s
           = collect (map (\<lambda>j. encode_inner st f (chunk feats n s j)) [0..<(n + s - 1) div s])"
  using sub_batches_chunks [OF assms, of st f feats 0 n] by (simp add: chunk_def)

text \<open>
  Where sub-batching does what is asked of it. With the sub-batch size unset or \<open>-1\<close>,
  \<^verbatim>\<open>encode\<close> is one pass
  over the whole batch. For a well-formed batch of \<open>n > 0\<close> examples and a positive
  sub-batch size \<open>s\<close>, the chunks \<open>0, 1, \<dots>\<close> of size \<open>s\<close> (the last one possibly
  smaller) are each encoded on their own, in order, all of them succeed, the result is
  their concatenation, and it equals the result of the single pass over the whole batch.
  The encoder is a function of the single example.
\<close>

theorem encode_sub_batching:
  "(sub_batch_size st = None \<or> sub_batch_size st = Some (- 1)
      \<longrightarrow> encode st f (Some feats) = map_sum id Some (encode_inner st f feats))
   \<and> (wf_features feats n \<and> 0 < n \<and> sub_batch_size st = Some s \<and> 0 < s
      \<longrightarrow> (\<exists>ds. collect (map (\<lambda>j. encode_inner st f (chunk feats n (nat s) j))
                              [0..<(n + nat s - 1) div nat s]) = Inr ds
                \<and> encode st f (Some feats) = Inr (Some (concat ds)))
          \<and> encode st f (Some feats) = map_sum id Some (encode_inner st f feats))"
proof (intro conjI impI)
  assume "sub_batch_size st = None \<or> sub_batch_size st = Some (- 1)"
  then show "encode st f (Some feats) = map_sum id Some (encode_inner st f feats)"
    by (auto simp: encode_def)
next
  assume h: "wf_features feats n \<and> 0 < n \<and> sub_batch_size st = Some s \<and> 0 < s"
  then have wf: "wf_features feats n" and n: "0 < n" and sb: "sub_batch_size st = Some s"
    and s: "0 < s" by auto
  have s': "0 < nat s" using s by simp
  obtain am where am: "map_of feats ''attention_mask'' = Some am" "length am = n"
    using wf_features_mask [OF wf] by auto
  obtain ds where ds: "sub_batches st f feats 0 n (nat s) = Inr ds"
    "concat ds = map (row_embed st f) (drop 0 (batch_rows feats n))" "ds = [] \<longleftrightarrow> n \<le> 0"
    using sub_batches_concat [OF wf s', of st f 0] by auto
  have enc: "encode st f (Some feats) = Inr (Some (concat ds))"
    using sb s am ds(1,3) n by (simp add: encode_def)
  show "\<exists>ds. collect (map (\<lambda>j. encode_inner st f (chunk feats n (nat s) j))
                              [0..<(n + nat s - 1) div nat s]) = Inr ds
                \<and> encode st f (Some feats) = Inr (Some (concat ds))"
  proof -
    have "collect (map (\<lambda>j. encode_inner st f (chunk feats n (nat s) j))
                       [0..<(n + nat s - 1) div nat s]) = Inr ds"
      using ds(1) by (simp only: sub_batches_as_chunks [OF s', of st f feats n])
    with enc show ?thesis by blast
  qed
  show "encode st f (Some feats) = map_sum id Some (encode_inner st f feats)"
    using enc ds(2) encode_inner_wf [OF wf, of st f] by simp
qed

theorem encode_sub_batching_witness:
  "wf_features example_features 3 \<and> (0::nat) < 3
     \<and> sub_batch_size (init example_args) = Some 2 \<and> (0::int) < 2
     \<and> encode (init example_args) ids_encoder (Some example_features)
         = Inr (Some [[1, 0], [0, 1], [1, 1]])
     \<and> encode (init example_args) ids_encoder (Some example_features)
         = map_sum id Some (encode_inner (init example_args) ids_encoder example_features)"
proof -
  have wf: "wf_features example_features 3"
    by (simp add: wf_features_def example_features_def)
  have sb: "sub_batch_size (init example_args) = Some 2"
    by (simp add: init_def example_args_def load_model_def)
  have nn: "\<not> normlized (init example_args)"
    by (simp add: init_def example_args_def load_model_def)
  have whole: "encode_inner (init example_args) ids_encoder example_features
                 = Inr [[1, 0], [0, 1], [1, 1]]"
    using nn by (simp add: encode_inner_def run_model_def example_features_def batch_rows_def
        ids_encoder_def upt_rec)
  from encode_sub_batching [of "init example_args" ids_encoder example_features 3 2]
  show ?thesis using wf sb whole by simp
qed

text \<open>
  On a batch with no rows the loop of \<^verbatim>\<open>encode\<close> runs no iteration: the encoder is
  not called, \<^verbatim>\<open>all_dense_vecs\<close> stays empty and \<^verbatim>\<open>torch.cat\<close> raises, whatever
  the encoder and the positive sub-batch size.
\<close>

lemma encode_no_rows_raises:
  assumes "sub_batch_size st = Some s" "0 < s" "map_of feats ''attention_mask'' = Some []"
  shows "encode st f (Some feats) = Inl RuntimeError"
  using assms by (simp add: encode_def)

text \<open>
  C2. The feature batch with no examples and the sub-batch size 2: for every encoder
  \<open>f\<close>, \<^verbatim>\<open>encode\<close> raises a RuntimeError at \<^verbatim>\<open>torch.cat(all_dense_vecs, 0)\<close>. It
  returns no embedding batch, so not the one of a whole-batch pass, which for an encoder
  that is a function of the single example is the empty batch.
\<close>

theorem sub_batched_encode_raises_on_empty_batch:
  "encode (init example_args) f (Some empty_features) = Inl RuntimeError"
proof -
  have sb: "sub_batch_size (init example_args) = Some 2"
    by (simp add: init_def example_args_def load_model_def)
  have am: "map_of empty_features ''attention_mask'' = Some []"
    by (simp add: empty_features_def)
  show ?thesis by (rule encode_no_rows_raises [OF sb _ am]) simp
qed

subsection \<open>The inference classes\<close>

lemma collect_error: "collect xs = Inl e \<Longrightarrow> Inl e \<in> set xs"
  by (induction xs) (auto split: sum.splits)

lemma bind_args_error: "bind_args params pos kw = Inl e \<Longrightarrow> e = TypeError"
  by (auto simp: bind_args_def Let_def split: if_splits sum.splits option.splits
      dest!: collect_error)

lemma bind_args_unknown_keyword:
  assumes "(k, v) \<in> set kw" "k \<notin> set (map fst params)"
  shows "bind_args params pos kw = Inl TypeError"
  using assms by (auto simp: bind_args_def Let_def)

lemma bind_args_too_many:
  assumes "length params < length pos"
  shows "bind_args params pos kw = Inl TypeError"
  using assms by (simp add: bind_args_def)

lemma base_rejects_subclass_keywords:
  "M3DenseEmbedModel [] ((''model_load_args'', v) # kw) = ([], Inl TypeError)"
proof -
  have "bind_args [(''model_args'', None)] [] ((''model_load_args'', v) # kw) = Inl TypeError"
    by (rule bind_args_unknown_keyword [where k = "''model_load_args''" and v = v]) simp_all
  then show ?thesis by (simp add: M3DenseEmbedModel_def)
qed

text \<open>
  C10. For every list of positional and keyword arguments, the constructors of
  \<^verbatim>\<open>M3ForInference\<close> and of \<^verbatim>\<open>M3ForScore\<close> raise a TypeError and no checkpoint
  has been loaded: either the arguments do not fit the subclass's own parameters, or the
  call of the base \<^verbatim>\<open>__init__\<close> with the keyword \<^verbatim>\<open>model_load_args\<close> (and four
  more) does not fit its single parameter \<^verbatim>\<open>model_args\<close>.
\<close>

theorem subclass_constructors_raise:
  "M3ForInference env pos kw = ([], Inl TypeError) \<and> M3ForScore env pos kw = ([], Inl TypeError)"
proof
  show "M3ForInference env pos kw = ([], Inl TypeError)"
    unfolding M3ForInference_def
    by (auto split: sum.splits dest: bind_args_error simp: base_rejects_subclass_keywords)
  show "M3ForScore env pos kw = ([], Inl TypeError)"
    unfolding M3ForScore_def
    by (auto split: sum.splits dest: bind_args_error simp: base_rejects_subclass_keywords)
qed

theorem subclass_constructors_raise_witness:
  "M3ForInference \<lparr>cuda_available = False, device_count = 0\<rparr>
       [PArgs example_args :: nat list pyval] [] = ([], Inl TypeError)
   \<and> M3ForScore \<lparr>cuda_available = False, device_count = 0\<rparr>
       [PArgs example_args :: nat list pyval] [] = ([], Inl TypeError)"
  using subclass_constructors_raise
    [of "\<lparr>cuda_available = False, device_count = 0\<rparr>" "[PArgs example_args :: nat list pyval]" "[]"]
  by simp

text \<open>
  Both \<^verbatim>\<open>select_topk\<close> and \<^verbatim>\<open>M3ForInference.__call__\<close> pass a second positional
  argument (the batch size) to \<^verbatim>\<open>encode\<close>, which takes the features only: the call
  raises before the body of \<^verbatim>\<open>encode\<close> runs, so neither method ever returns.
\<close>

lemma encode_call_two_positional: "encode_call st f (a # b # rest) kw = Inl TypeError"
  by (simp add: encode_call_def bind_args_too_many)

lemma select_topk_raises: "\<exists>e. select_topk sc f tok query documents k = Inl e"
  unfolding select_topk_def
  by (auto split: sum.splits simp: encode_call_two_positional)

lemma inference_call_raises: "\<exists>e. inference_call sv f tok sentences bsz max_len = Inl e"
  unfolding inference_call_def
  by (auto split: sum.splits sentences.splits simp: encode_call_two_positional)

lemma example_state_simps:
  "sub_batch_size (init example_args) = Some 2" "\<not> normlized (init example_args)"
  "temperature (init example_args) = 1"
  by (simp_all add: init_def example_args_def load_model_def)

lemma encode_query_example:
  "encode_call (init example_args) ids_encoder
       [PFeat [(''input_ids'', [[Suc 0]]), (''attention_mask'', [[Suc 0]])]] []
     = Inr (Some [[1]])"
  by (simp add: encode_call_def bind_args_def arg_def encode_def example_state_simps
      encode_inner_def run_model_def batch_rows_def ids_encoder_def slice_def
      sub_batches_unfold)

text \<open>
  C7. \<^verbatim>\<open>select_topk\<close> on a query, three documents and \<open>k = 2\<close>: the query is
  encoded, then the call \<^verbatim>\<open>self.encode(documents, self.batch_size)\<close> raises a
  TypeError; no indices are returned.
\<close>

theorem select_topk_type_error:
  "select_topk example_score_state ids_encoder length_tokenizer ''q'' [''a'', ''bb'', ''ccc''] 2
     = Inl TypeError"
  by (simp add: select_topk_def example_score_state_def length_tokenizer_def
      encode_query_example encode_call_two_positional)

text \<open>
  C8. \<^verbatim>\<open>M3ForInference.__call__\<close> on the single string \<^verbatim>\<open>hello\<close> and on the
  list that holds it: both calls raise a TypeError at
  \<^verbatim>\<open>self.encode(inputs, batch_size)\<close>; no embedding is returned.
\<close>

theorem inference_call_type_error:
  "inference_call (serving example_score_state) ids_encoder length_tokenizer (Single ''hello'') (PInt 256) 8192
     = Inl TypeError
   \<and> inference_call (serving example_score_state) ids_encoder length_tokenizer (Several [''hello'']) (PInt 256) 8192
     = Inl TypeError"
  by (simp add: inference_call_def length_tokenizer_def encode_call_two_positional)

subsection \<open>Similarity\<close>

lemma dot_sum:
  assumes "length u = d" "length v = d"
  shows "dot u v = (\<Sum>t<d. u ! t * v ! t)"
proof -
  have "dot u v = (\<Sum>t = 0..<d. map2 (*) u v ! t)"
    using assms by (simp add: dot_def sum_list_sum_nth)
  also have "\<dots> = (\<Sum>t = 0..<d. u ! t * v ! t)"
    using assms by (intro sum.cong) auto
  finally show ?thesis by (simp add: atLeast0LessThan)
qed

lemma collect_map_Inr:
  assumes "\<And>x. x \<in> set xs \<Longrightarrow> g x = Inr (h x)"
  shows "collect (map g xs) = Inr (map h xs)"
  using assms by (induction xs) auto

lemma is_mat_nth: "is_mat m b d \<Longrightarrow> i < b \<Longrightarrow> length (m ! i) = d"
  by (auto simp: is_mat_def)

lemma is_cube_nth: "is_cube c k n d \<Longrightarrow> i < k \<Longrightarrow> is_mat (c ! i) n d"
  by (auto simp: is_cube_def)

lemma matmul_t_shaped:
  assumes "is_mat q b d" "is_mat p m d"
  shows "matmul_t q p = Inr (map (\<lambda>u. map (dot u) p) q)"
  using assms by (auto simp: matmul_t_def is_mat_def)

lemma compute_similarity_2d:
  assumes "is_mat q b d" "is_mat p m d"
  shows "compute_similarity q (T2 p) = Inr (T2 (map (\<lambda>u. map (dot u) p) q))"
  using matmul_t_shaped [OF assms] by (simp add: compute_similarity_def)

lemma compute_similarity_3d:
  assumes "is_mat q b d" "is_cube p k n d"
  shows "compute_similarity q (T3 p) = Inr (T3 (map (\<lambda>g. map (\<lambda>u. map (dot u) g) q) p))"
proof -
  have "collect (map (matmul_t q) p) = Inr (map (\<lambda>g. map (\<lambda>u. map (dot u) g) q) p)"
    using assms by (intro collect_map_Inr matmul_t_shaped [where b = b and d = d and m = n])
      (auto simp: is_cube_def)
  then show ?thesis by (simp add: compute_similarity_def)
qed

text \<open>
  C5 (as amended). For \<open>Q : [b, d]\<close>: with a 2-axis \<open>P : [m, d]\<close> the similarity is
  the \<open>[b, m]\<close> matrix \<open>Q P\<^sup>T\<close>, entry \<open>(i, j)\<close> being the dot product of \<open>Q\<^sub>i\<close> and
  \<open>P\<^sub>j\<close>. With a 3-axis \<open>C : [k, n, d]\<close> it is a tensor of shape \<open>[k, b, n]\<close>, entry
  \<open>(c, i, j)\<close> being the dot product of \<open>Q\<^sub>i\<close> and \<open>C\<^sub>c\<^sub>j\<close>: every query is scored
  against every candidate set, and the row \<open>Q\<^sub>i \<cdot> C\<^sub>i\<^sup>T\<close> of the query's own set is the
  slice \<open>(i, i)\<close>.
\<close>

theorem similarity_shape_law:
  assumes "is_mat Q b d"
  shows "(is_mat P m d \<longrightarrow>
            (\<exists>S. compute_similarity Q (T2 P) = Inr (T2 S) \<and> is_mat S b m
                \<and> (\<forall>i<b. \<forall>j<m. S ! i ! j = (\<Sum>t<d. Q ! i ! t * P ! j ! t))))
       \<and> (is_cube C k n d \<longrightarrow>
            (\<exists>S. compute_similarity Q (T3 C) = Inr (T3 S) \<and> is_cube S k b n
                \<and> (\<forall>c<k. \<forall>i<b. \<forall>j<n. S ! c ! i ! j = (\<Sum>t<d. Q ! i ! t * C ! c ! j ! t))
                \<and> (\<forall>i<b. i < k \<longrightarrow> S ! i ! i = per_query_similarity Q C ! i)))"
proof (intro conjI impI)
  assume P: "is_mat P m d"
  let ?S = "map (\<lambda>u. map (dot u) P) Q"
  have "compute_similarity Q (T2 P) = Inr (T2 ?S)"
    by (rule compute_similarity_2d [OF assms P])
  moreover have "is_mat ?S b m" using assms P by (auto simp: is_mat_def)
  moreover have "\<forall>i<b. \<forall>j<m. ?S ! i ! j = (\<Sum>t<d. Q ! i ! t * P ! j ! t)"
    using assms P by (auto simp: is_mat_def intro!: dot_sum)
  ultimately show "\<exists>S. compute_similarity Q (T2 P) = Inr (T2 S) \<and> is_mat S b m
                \<and> (\<forall>i<b. \<forall>j<m. S ! i ! j = (\<Sum>t<d. Q ! i ! t * P ! j ! t))"
    by blast
next
  assume C: "is_cube C k n d"
  let ?S = "map (\<lambda>g. map (\<lambda>u. map (dot u) g) Q) C"
  have "compute_similarity Q (T3 C) = Inr (T3 ?S)"
    by (rule compute_similarity_3d [OF assms C])
  moreover have "is_cube ?S k b n" using assms C by (auto simp: is_mat_def is_cube_def)
  moreover have "\<forall>c<k. \<forall>i<b. \<forall>j<n. ?S ! c ! i ! j = (\<Sum>t<d. Q ! i ! t * C ! c ! j ! t)"
  proof (intro allI impI)
    fix c i j assume h: "c < k" "i < b" "j < n"
    have "length (C ! c) = n" "length C = k" "length Q = b"
      using is_cube_nth [OF C h(1)] C assms by (auto simp: is_mat_def is_cube_def)
    moreover have "dot (Q ! i) (C ! c ! j) = (\<Sum>t<d. Q ! i ! t * C ! c ! j ! t)"
      by (rule dot_sum [OF is_mat_nth [OF assms h(2)] is_mat_nth [OF is_cube_nth [OF C h(1)] h(3)]])
    ultimately show "?S ! c ! i ! j = (\<Sum>t<d. Q ! i ! t * C ! c ! j ! t)"
      using h by simp
  qed
  moreover have "\<forall>i<b. i < k \<longrightarrow> ?S ! i ! i = per_query_similarity Q C ! i"
    using assms C by (auto simp: is_mat_def is_cube_def per_query_similarity_def)
  ultimately show "\<exists>S. compute_similarity Q (T3 C) = Inr (T3 S) \<and> is_cube S k b n
                \<and> (\<forall>c<k. \<forall>i<b. \<forall>j<n. S ! c ! i ! j = (\<Sum>t<d. Q ! i ! t * C ! c ! j ! t))
                \<and> (\<forall>i<b. i < k \<longrightarrow> S ! i ! i = per_query_similarity Q C ! i)"
    by blast
qed

theorem similarity_shape_law_witness:
  "is_mat [[1], [2]] 2 1 \<and> is_mat [[3], [4]] 2 1 \<and> is_cube [[[3]], [[4]]] 2 1 1
   \<and> (\<exists>S. compute_similarity [[1], [2]] (T2 [[3], [4]]) = Inr (T2 S) \<and> is_mat S 2 2)
   \<and> (\<exists>S. compute_similarity [[1], [2]] (T3 [[[3]], [[4]]]) = Inr (T3 S) \<and> is_cube S 2 2 1)"
proof -
  have q: "is_mat [[1], [2]] 2 1" by (simp add: is_mat_def)
  have p: "is_mat [[3], [4]] 2 1" by (simp add: is_mat_def)
  have c: "is_cube [[[3]], [[4]]] 2 1 1" by (simp add: is_cube_def is_mat_def)
  from similarity_shape_law [OF q, of "[[3], [4]]" 2 "[[[3]], [[4]]]" 2 1] p c q
  show ?thesis by blast
qed

text \<open>
  The claim as stated, a \<open>[b, n]\<close> result for a 3-axis \<open>P\<close>, fails for two queries
  with one candidate each: the code returns a \<open>[2, 2, 1]\<close> tensor.
\<close>

theorem similarity_3d_not_per_query:
  "compute_similarity [[1], [2]] (T3 [[[3]], [[4]]]) = Inr (T3 [[[3], [6]], [[4], [8]]])
   \<and> per_query_similarity [[1], [2]] [[[3]], [[4]]] = [[3], [8]]
   \<and> compute_similarity [[1], [2]] (T3 [[[3]], [[4]]])
        \<noteq> Inr (T2 (per_query_similarity [[1], [2]] [[[3]], [[4]]]))"
  by (simp add: compute_similarity_def matmul_t_def dot_def per_query_similarity_def)

subsection \<open>The retrieval loss\<close>

lemma length_concat_rect:
  assumes "\<forall>v \<in> set M. length v = m"
  shows "length (concat M) = length M * m"
  using assms by (induction M) auto

lemma rows_of_concat:
  assumes "\<forall>v \<in> set M. length v = m"
  shows "map (\<lambda>i. take m (drop (i * m) (concat M))) [0..<length M] = M"
  using assms
proof (induction M)
  case Nil
  then show ?case by simp
next
  case (Cons v M)
  have "map (\<lambda>i. take m (drop (i * m) (concat (v # M)))) [0..<length (v # M)]
        = take m (v @ concat M) # map (\<lambda>i. take m (drop (Suc i * m) (v @ concat M))) [0..<length M]"
    by (simp add: upt_Suc_shift comp_def del: upt_Suc)
  also have "\<dots> = v # map (\<lambda>i. take m (drop (i * m) (concat M))) [0..<length M]"
    using Cons.prems by (simp add: add.commute)
  finally show ?case using Cons by simp
qed

lemma view_rows_concat:
  assumes "is_mat M b m" "0 < b"
  shows "view_rows b (concat M) = Inr M"
proof -
  have r: "\<forall>v \<in> set M. length v = m" and b: "length M = b"
    using assms by (auto simp: is_mat_def)
  have len: "length (concat M) = b * m" using length_concat_rect [OF r] b by simp
  have "length (concat M) div b = m" using len assms(2) by simp
  then show ?thesis using len assms(2) rows_of_concat [OF r] b by (simp add: view_rows_def)
qed

lemma dense_score_2d:
  assumes "is_mat Q b d" "is_mat P m d" "0 < b" "temperature st \<noteq> 0"
  shows "dense_score st Q (T2 P) = Inr (map (\<lambda>u. map (\<lambda>v. dot u v / temperature st) P) Q)"
proof -
  have "is_mat (map (\<lambda>u. map (dot u) P) Q) b m"
    using assms by (auto simp: is_mat_def)
  from view_rows_concat [OF this assms(3)] compute_similarity_2d [OF assms(1,2)] assms
  show ?thesis by (simp add: dense_score_def is_mat_def comp_def)
qed

lemma loss_targets_2d:
  assumes "length Q = b" "length P = b * r" "0 < b"
  shows "loss_targets Q (T2 P) = Inr (map (\<lambda>i. i * r) [0..<b])"
  using assms by (simp add: loss_targets_def)

lemma sum_list_nth_lessThan: "sum_list xs = (\<Sum>i<length xs. xs ! i)"
  by (simp add: sum_list_sum_nth atLeast0LessThan)

lemma cross_entropy_explicit:
  assumes "is_mat S b c" "0 < b" "length ts = b" "\<forall>i<b. ts ! i < c"
  shows "cross_entropy S ts
           = Inr ((\<Sum>i<b. ln (\<Sum>j<c. exp (S ! i ! j)) - S ! i ! (ts ! i)) / real b)"
proof -
  have len: "length S = b" and rows: "\<forall>v \<in> set S. length v = c"
    using assms by (auto simp: is_mat_def)
  have nobad: "\<not> (\<exists>(x, t) \<in> set (zip S ts). length x \<le> t)"
  proof
    assume "\<exists>(x, t) \<in> set (zip S ts). length x \<le> t"
    then obtain x t where xt: "(x, t) \<in> set (zip S ts)" "length x \<le> t" by auto
    then obtain i where i: "i < b" "S ! i = x" "ts ! i = t"
      using len assms(3) by (auto simp: set_zip)
    then have "length x = c" using rows len by auto
    then show False using i xt(2) assms(4) by auto
  qed
  have ne: "S \<noteq> []" using len assms(2) by auto
  have "sum_list (map2 (\<lambda>x t. ln (sum_list (map exp x)) - x ! t) S ts)
          = (\<Sum>i<b. ln (\<Sum>j<c. exp (S ! i ! j)) - S ! i ! (ts ! i))"
  proof -
    have "sum_list (map2 (\<lambda>x t. ln (sum_list (map exp x)) - x ! t) S ts)
            = (\<Sum>i<b. map2 (\<lambda>x t. ln (sum_list (map exp x)) - x ! t) S ts ! i)"
      using len assms(3) by (simp add: sum_list_nth_lessThan)
    also have "\<dots> = (\<Sum>i<b. ln (\<Sum>j<c. exp (S ! i ! j)) - S ! i ! (ts ! i))"
    proof (rule sum.cong [OF refl])
      fix i assume "i \<in> {..<b}"
      then have i: "i < b" by simp
      then have l: "length (S ! i) = c" using rows len by auto
      have "sum_list (map exp (S ! i)) = (\<Sum>j<c. exp (S ! i ! j))"
        using l by (simp add: sum_list_nth_lessThan)
      then show "map2 (\<lambda>x t. ln (sum_list (map exp x)) - x ! t) S ts ! i
                   = ln (\<Sum>j<c. exp (S ! i ! j)) - S ! i ! (ts ! i)"
        using i len assms(3) by simp
    qed
    finally show ?thesis .
  qed
  then show ?thesis using nobad ne len assms(3) by (simp add: cross_entropy_def)
qed

text \<open>
  C3. For a query batch \<open>Q : [b, d]\<close> with \<open>b > 0\<close> and a 2-axis passage batch
  \<open>P : [b * r, d]\<close> with \<open>r > 0\<close>, the targets of
  \<^verbatim>\<open>entity_reconstruction_loss\<close> are \<open>[0, r, 2r, \<dots>, (b - 1) r]\<close> and the loss is the
  cross-entropy of \<^verbatim>\<open>dense_score(Q, P)\<close> against them. With a non-zero temperature the
  scores are the \<open>[b, b * r]\<close> matrix of the dot products over the temperature, and the
  loss is the mean over the rows \<open>i\<close> of \<open>log (\<Sum>j. exp S\<^sub>i\<^sub>j) - S\<^sub>i\<^sub>,\<^sub>i\<^sub>r\<close>.
\<close>

theorem retrieval_loss_targets:
  assumes "is_mat Q b d" "is_mat P (b * r) d" "0 < b" "0 < r"
  shows "loss_targets Q (T2 P) = Inr (map (\<lambda>i. i * r) [0..<b])
       \<and> entity_reconstruction_loss st Q (T2 P)
           = (case dense_score st Q (T2 P) of
                Inl e \<Rightarrow> Inl e
              | Inr S \<Rightarrow> cross_entropy S (map (\<lambda>i. i * r) [0..<b]))
       \<and> (temperature st \<noteq> 0 \<longrightarrow>
            (\<exists>S. dense_score st Q (T2 P) = Inr S \<and> is_mat S b (b * r)
               \<and> (\<forall>i<b. \<forall>j<b * r. S ! i ! j = (\<Sum>t<d. Q ! i ! t * P ! j ! t) / temperature st)
               \<and> entity_reconstruction_loss st Q (T2 P)
                   = Inr ((\<Sum>i<b. ln (\<Sum>j<b * r. exp (S ! i ! j)) - S ! i ! (i * r)) / real b)))"
proof (intro conjI impI)
  have lq: "length Q = b" and lp: "length P = b * r"
    using assms by (auto simp: is_mat_def)
  show tg: "loss_targets Q (T2 P) = Inr (map (\<lambda>i. i * r) [0..<b])"
    by (rule loss_targets_2d [OF lq lp assms(3)])
  show erl: "entity_reconstruction_loss st Q (T2 P)
           = (case dense_score st Q (T2 P) of
                Inl e \<Rightarrow> Inl e
              | Inr S \<Rightarrow> cross_entropy S (map (\<lambda>i. i * r) [0..<b]))"
    by (simp add: entity_reconstruction_loss_def tg)
  assume T: "temperature st \<noteq> 0"
  let ?S = "map (\<lambda>u. map (\<lambda>v. dot u v / temperature st) P) Q"
  have ds: "dense_score st Q (T2 P) = Inr ?S"
    by (rule dense_score_2d [OF assms(1,2,3) T])
  have shape: "is_mat ?S b (b * r)" using lq lp by (simp add: is_mat_def)
  have entries: "\<forall>i<b. \<forall>j<b * r. ?S ! i ! j = (\<Sum>t<d. Q ! i ! t * P ! j ! t) / temperature st"
  proof (intro allI impI)
    fix i j assume h: "i < b" "j < b * r"
    have "dot (Q ! i) (P ! j) = (\<Sum>t<d. Q ! i ! t * P ! j ! t)"
      by (rule dot_sum [OF is_mat_nth [OF assms(1) h(1)] is_mat_nth [OF assms(2) h(2)]])
    then show "?S ! i ! j = (\<Sum>t<d. Q ! i ! t * P ! j ! t) / temperature st"
      using h lq lp by simp
  qed
  have "\<forall>i<b. map (\<lambda>i. i * r) [0..<b] ! i < b * r" using assms(4) by simp
  from cross_entropy_explicit [OF shape assms(3) _ this]
  have "cross_entropy ?S (map (\<lambda>i. i * r) [0..<b])
          = Inr ((\<Sum>i<b. ln (\<Sum>j<b * r. exp (?S ! i ! j)) - ?S ! i ! (i * r)) / real b)"
    by simp
  then have "entity_reconstruction_loss st Q (T2 P)
          = Inr ((\<Sum>i<b. ln (\<Sum>j<b * r. exp (?S ! i ! j)) - ?S ! i ! (i * r)) / real b)"
    by (simp only: erl ds sum.case)
  with ds shape entries
  show "\<exists>S. dense_score st Q (T2 P) = Inr S \<and> is_mat S b (b * r)
               \<and> (\<forall>i<b. \<forall>j<b * r. S ! i ! j = (\<Sum>t<d. Q ! i ! t * P ! j ! t) / temperature st)
               \<and> entity_reconstruction_loss st Q (T2 P)
                   = Inr ((\<Sum>i<b. ln (\<Sum>j<b * r. exp (S ! i ! j)) - S ! i ! (i * r)) / real b)"
    by blast
qed

theorem retrieval_loss_targets_witness:
  "is_mat [[1, 0], [0, 1]] 2 2
   \<and> is_mat [[1, 0], [1, 1], [0, 0], [0, 1], [1, 1], [0, 0]] (2 * 3) 2
   \<and> (0::nat) < 2 \<and> (0::nat) < 3
   \<and> loss_targets [[1, 0], [0, 1]] (T2 [[1, 0], [1, 1], [0, 0], [0, 1], [1, 1], [0, 0]])
        = Inr [0, 3]
   \<and> entity_reconstruction_loss (init example_args) [[1, 0], [0, 1]]
          (T2 [[1, 0], [1, 1], [0, 0], [0, 1], [1, 1], [0, 0]])
        = (case dense_score (init example_args) [[1, 0], [0, 1]]
                  (T2 [[1, 0], [1, 1], [0, 0], [0, 1], [1, 1], [0, 0]]) of
             Inl e \<Rightarrow> Inl e
           | Inr S \<Rightarrow> cross_entropy S [0, 3])"
proof -
  have q: "is_mat [[1, 0], [0, 1]] 2 2" by (simp add: is_mat_def)
  have p: "is_mat [[1, 0], [1, 1], [0, 0], [0, 1], [1, 1], [0, 0]] (2 * 3) 2"
    by (simp add: is_mat_def)
  have t: "map (\<lambda>i. i * 3) [0..<2] = [0, 3::nat]" by (simp add: upt_rec)
  from retrieval_loss_targets [OF q p, of "init example_args", unfolded t] q p
  show ?thesis by simp
qed

subsection \<open>The relational loss\<close>

lemma map2_nth:
  assumes "length xs = n" "length ys = n"
  shows "map2 g xs ys = map (\<lambda>i. g (xs ! i) (ys ! i)) [0..<n]"
  using assms by (auto intro: nth_equalityI)

lemma bc_vec_same_length:
  assumes "length u = d" "length v = d"
  shows "bc_vec g u v = Inr (map (\<lambda>t. g (u ! t) (v ! t)) [0..<d])"
  using assms map2_nth [OF assms, of g] by (simp add: bc_vec_def)

lemma bc_mat_same_shape:
  assumes "is_mat A b d" "is_mat B b d"
  shows "bc_mat g A B = Inr (map (\<lambda>i. map (\<lambda>t. g (A ! i ! t) (B ! i ! t)) [0..<d]) [0..<b])"
proof -
  have la: "length A = b" and lb: "length B = b" using assms by (auto simp: is_mat_def)
  have "map2 (bc_vec g) A B = map (\<lambda>i. bc_vec g (A ! i) (B ! i)) [0..<b]"
    by (rule map2_nth [OF la lb])
  moreover have "collect (map (\<lambda>i. bc_vec g (A ! i) (B ! i)) [0..<b])
      = Inr (map (\<lambda>i. map (\<lambda>t. g (A ! i ! t) (B ! i ! t)) [0..<d]) [0..<b])"
    using assms by (intro collect_map_Inr bc_vec_same_length is_mat_nth) auto
  ultimately show ?thesis using la lb by (simp add: bc_mat_def)
qed

lemma select0_shaped:
  assumes "is_cube x b n d" "0 < n"
  shows "select0 x = Inr (map (\<lambda>i. x ! i ! 0) [0..<b])"
    and "is_mat (map (\<lambda>i. x ! i ! 0) [0..<b]) b d"
proof -
  have l: "length x = b" and g: "\<forall>g \<in> set x. length g = n \<and> (\<forall>v \<in> set g. length v = d)"
    using assms by (auto simp: is_cube_def is_mat_def)
  have ne: "\<not> (\<exists>g \<in> set x. g = [])" using g assms(2) by auto
  have "map hd x = map (\<lambda>i. x ! i ! 0) [0..<b]"
  proof (rule nth_equalityI)
    show "length (map hd x) = length (map (\<lambda>i. x ! i ! 0) [0..<b])" using l by simp
  next
    fix i assume "i < length (map hd x)"
    then have i: "i < b" using l by simp
    then have "x ! i \<in> set x" using l by simp
    then have "length (x ! i) = n" using g by blast
    then have "x ! i \<noteq> []" using assms(2) by auto
    then show "map hd x ! i = map (\<lambda>i. x ! i ! 0) [0..<b] ! i"
      using i l by (simp add: hd_conv_nth)
  qed
  then show "select0 x = Inr (map (\<lambda>i. x ! i ! 0) [0..<b])"
    using ne by (simp add: select0_def)
  have "length (x ! i ! 0) = d" if "i < b" for i
    using is_mat_nth [OF is_cube_nth [OF assms(1) that] assms(2)] .
  then show "is_mat (map (\<lambda>i. x ! i ! 0) [0..<b]) b d"
    by (auto simp: is_mat_def)
qed

lemma from1_nth:
  assumes "length x = b"
  shows "from1 x = map (\<lambda>i. drop 1 (x ! i)) [0..<b]"
  using assms by (auto simp: from1_def intro: nth_equalityI)

lemma kg_embed_loss_shaped:
  assumes "is_cube head b n d" "is_cube tail b n' d" "is_mat link b d" "0 < n" "0 < n'"
  shows "kg_embed_loss info_nce head (Some link) tail =
          (case info_nce (map (\<lambda>i. map (\<lambda>t. head ! i ! 0 ! t + link ! i ! t) [0..<d]) [0..<b])
                         (map (\<lambda>i. tail ! i ! 0) [0..<b])
                         (map (\<lambda>i. drop 1 (tail ! i)) [0..<b]) of
             Inl e \<Rightarrow> Inl e
           | Inr fwd \<Rightarrow>
               (case info_nce (map (\<lambda>i. map (\<lambda>t. tail ! i ! 0 ! t - link ! i ! t) [0..<d]) [0..<b])
                              (map (\<lambda>i. head ! i ! 0) [0..<b])
                              (map (\<lambda>i. drop 1 (head ! i)) [0..<b]) of
                  Inl e \<Rightarrow> Inl e
                | Inr bwd \<Rightarrow> Inr (fwd, bwd)))"
proof -
  have lh: "length head = b" and lt: "length tail = b"
    using assms by (auto simp: is_cube_def)
  note h = select0_shaped [OF assms(1,4)] and t = select0_shaped [OF assms(2,5)]
  have fa: "bc_mat (+) (map (\<lambda>i. head ! i ! 0) [0..<b]) link
      = Inr (map (\<lambda>i. map (\<lambda>t. head ! i ! 0 ! t + link ! i ! t) [0..<d]) [0..<b])"
    using bc_mat_same_shape [OF h(2) assms(3), of "(+)"] by simp
  have ba: "bc_mat (-) (map (\<lambda>i. tail ! i ! 0) [0..<b]) link
      = Inr (map (\<lambda>i. map (\<lambda>t. tail ! i ! 0 ! t - link ! i ! t) [0..<d]) [0..<b])"
    using bc_mat_same_shape [OF t(2) assms(3), of "(-)"] by simp
  show ?thesis
    by (simp only: kg_embed_loss_def h(1) t(1) fa ba from1_nth [OF lh] from1_nth [OF lt]
        sum.case option.case Let_def)
qed

text \<open>
  C4. For grouped batches \<open>head, tail : [b, N, d]\<close> with \<open>N > 0\<close> and
  \<open>link_desc : [b, d]\<close>, \<^verbatim>\<open>kg_embed_loss\<close> is the pair of the forward term, InfoNCE
  of the anchors \<open>head[i][0] + link_desc[i]\<close> with the positives \<open>tail[i][0]\<close> and the
  paired negatives \<open>tail[i][1:]\<close>, and the backward term, InfoNCE of the anchors
  \<open>tail[i][0] - link_desc[i]\<close> with the positives \<open>head[i][0]\<close> and the paired
  negatives \<open>head[i][1:]\<close>; the first error of the two terms, if any, is the result.
  Replacing the negatives of the tail (positives kept) leaves the backward loss as it is,
  and replacing the negatives of the head leaves the forward loss as it is.
\<close>

theorem kg_embed_loss_directions:
  assumes "is_cube head b n d" "is_cube tail b n d" "is_mat link b d" "0 < n"
  shows "kg_embed_loss info_nce head (Some link) tail =
          (case info_nce (map (\<lambda>i. map (\<lambda>t. head ! i ! 0 ! t + link ! i ! t) [0..<d]) [0..<b])
                         (map (\<lambda>i. tail ! i ! 0) [0..<b])
                         (map (\<lambda>i. drop 1 (tail ! i)) [0..<b]) of
             Inl e \<Rightarrow> Inl e
           | Inr fwd \<Rightarrow>
               (case info_nce (map (\<lambda>i. map (\<lambda>t. tail ! i ! 0 ! t - link ! i ! t) [0..<d]) [0..<b])
                              (map (\<lambda>i. head ! i ! 0) [0..<b])
                              (map (\<lambda>i. drop 1 (head ! i)) [0..<b]) of
                  Inl e \<Rightarrow> Inl e
                | Inr bwd \<Rightarrow> Inr (fwd, bwd)))
       \<and> (is_cube tail' b n' d \<and> 0 < n' \<and> (\<forall>i<b. tail' ! i ! 0 = tail ! i ! 0)
            \<and> kg_embed_loss info_nce head (Some link) tail = Inr (fwd, bwd)
            \<and> kg_embed_loss info_nce head (Some link) tail' = Inr (fwd', bwd')
          \<longrightarrow> bwd' = bwd)
       \<and> (is_cube head' b n' d \<and> 0 < n' \<and> (\<forall>i<b. head' ! i ! 0 = head ! i ! 0)
            \<and> kg_embed_loss info_nce head (Some link) tail = Inr (fwd, bwd)
            \<and> kg_embed_loss info_nce head' (Some link) tail = Inr (fwd', bwd')
          \<longrightarrow> fwd' = fwd)"
proof (intro conjI impI)
  note base = kg_embed_loss_shaped [OF assms(1,2,3,4,4), of info_nce]
  show "kg_embed_loss info_nce head (Some link) tail =
          (case info_nce (map (\<lambda>i. map (\<lambda>t. head ! i ! 0 ! t + link ! i ! t) [0..<d]) [0..<b])
                         (map (\<lambda>i. tail ! i ! 0) [0..<b])
                         (map (\<lambda>i. drop 1 (tail ! i)) [0..<b]) of
             Inl e \<Rightarrow> Inl e
           | Inr fwd \<Rightarrow>
               (case info_nce (map (\<lambda>i. map (\<lambda>t. tail ! i ! 0 ! t - link ! i ! t) [0..<d]) [0..<b])
                              (map (\<lambda>i. head ! i ! 0) [0..<b])
                              (map (\<lambda>i. drop 1 (head ! i)) [0..<b]) of
                  Inl e \<Rightarrow> Inl e
                | Inr bwd \<Rightarrow> Inr (fwd, bwd)))"
    by (rule base)
  {
    assume a: "is_cube tail' b n' d \<and> 0 < n' \<and> (\<forall>i<b. tail' ! i ! 0 = tail ! i ! 0)
            \<and> kg_embed_loss info_nce head (Some link) tail = Inr (fwd, bwd)
            \<and> kg_embed_loss info_nce head (Some link) tail' = Inr (fwd', bwd')"
    then have same: "map (\<lambda>i. tail' ! i ! 0) [0..<b] = map (\<lambda>i. tail ! i ! 0) [0..<b]"
      "map (\<lambda>i. map (\<lambda>t. tail' ! i ! 0 ! t - link ! i ! t) [0..<d]) [0..<b]
        = map (\<lambda>i. map (\<lambda>t. tail ! i ! 0 ! t - link ! i ! t) [0..<d]) [0..<b]"
      by auto
    from a have c: "is_cube tail' b n' d" "0 < n'" by auto
    note other = kg_embed_loss_shaped [OF assms(1) c(1) assms(3,4) c(2), of info_nce]
    from a base other show "bwd' = bwd"
      by (auto simp: same split: sum.splits)
  }
  {
    assume a: "is_cube head' b n' d \<and> 0 < n' \<and> (\<forall>i<b. head' ! i ! 0 = head ! i ! 0)
            \<and> kg_embed_loss info_nce head (Some link) tail = Inr (fwd, bwd)
            \<and> kg_embed_loss info_nce head' (Some link) tail = Inr (fwd', bwd')"
    then have same: "map (\<lambda>i. head' ! i ! 0) [0..<b] = map (\<lambda>i. head ! i ! 0) [0..<b]"
      "map (\<lambda>i. map (\<lambda>t. head' ! i ! 0 ! t + link ! i ! t) [0..<d]) [0..<b]
        = map (\<lambda>i. map (\<lambda>t. head ! i ! 0 ! t + link ! i ! t) [0..<d]) [0..<b]"
      by auto
    from a have c: "is_cube head' b n' d" "0 < n'" by auto
    note other = kg_embed_loss_shaped [OF c(1) assms(2,3) c(2) assms(4), of info_nce]
    from a base other show "fwd' = fwd"
      by (auto simp: same split: sum.splits)
  }
qed

theorem kg_embed_loss_directions_witness:
  "is_cube [[[1, 0], [0, 0]]] 1 2 2 \<and> is_cube [[[1, 1], [0, 0]]] 1 2 2 \<and> is_mat [[0, 1]] 1 2
   \<and> (0::nat) < 2 \<and> is_cube [[[1, 1], [5, 5]]] 1 2 2
   \<and> [[[1, 1], [5, 5]]] ! 0 ! 0 = [[[1, 1], [0, 0 :: real]]] ! 0 ! 0
   \<and> kg_embed_loss (info_nce_spec 1) [[[1, 0], [0, 0]]] (Some [[0, 1]]) [[[1, 1], [0, 0]]]
        = Inr (ln (exp 2 + 1) - 2, ln (exp 1 + 1) - 1)
   \<and> kg_embed_loss (info_nce_spec 1) [[[1, 0], [0, 0]]] (Some [[0, 1]]) [[[1, 1], [5, 5]]]
        = Inr (ln (exp 2 + exp 10) - 2, ln (exp 1 + 1) - 1)"
proof -
  have h: "is_cube [[[1, 0], [0, 0]]] 1 2 2" by (simp add: is_cube_def is_mat_def)
  have t: "is_cube [[[1, 1], [0, 0]]] 1 2 2" by (simp add: is_cube_def is_mat_def)
  have t': "is_cube [[[1, 1], [5, 5]]] 1 2 2" by (simp add: is_cube_def is_mat_def)
  have l: "is_mat [[0, 1]] 1 2" by (simp add: is_mat_def)
  have n: "(0::nat) < 2" by simp
  have u: "[0..<2] = [0, 1]" "[0..<1] = [0]" by (simp_all add: upt_rec)
  have a: "kg_embed_loss (info_nce_spec 1) [[[1, 0], [0, 0]]] (Some [[0, 1]]) [[[1, 1], [0, 0]]]
        = Inr (ln (exp 2 + 1) - 2, ln (exp 1 + 1) - 1)"
    using kg_embed_loss_directions [OF h t l n, of "info_nce_spec 1", THEN conjunct1]
    by (simp add: u info_nce_spec_def cross_entropy_def dot_def)
  have b: "kg_embed_loss (info_nce_spec 1) [[[1, 0], [0, 0]]] (Some [[0, 1]]) [[[1, 1], [5, 5]]]
        = Inr (ln (exp 2 + exp 10) - 2, ln (exp 1 + 1) - 1)"
    using kg_embed_loss_directions [OF h t' l n, of "info_nce_spec 1", THEN conjunct1]
    by (simp add: u info_nce_spec_def cross_entropy_def dot_def)
  show ?thesis using h t t' l a b by simp
qed

subsection \<open>Temperature and normalisation\<close>














subsection \<open>The composite step\<close>

text \<open>
  \<^verbatim>\<open>forward\<close> hands the 3-axis concatenation of the description groups to
  \<^verbatim>\<open>entity_reconstruction_loss\<close>. Its leading axis has as many entries as there are
  queries, so the ratio in line 108 is 1 and the target of row \<open>i\<close> is column \<open>i\<close>,
  whatever the group size.
\<close>

lemma retrieval_inputs_lengths:
  assumes "retrieval_inputs head head_desc tail tail_desc = Inr (query, passage)"
  shows "length query = length head + length tail
       \<and> length passage = length head_desc + length tail_desc"
  using assms
  by (auto simp: retrieval_inputs_def select0_def cat_mat_def cat_cube_def
      split: if_splits sum.splits)

lemma forward_targets_ratio_one:
  assumes "retrieval_inputs head head_desc tail tail_desc = Inr (query, passage)"
    and "length head_desc = length head" "length tail_desc = length tail" "head \<noteq> []"
  shows "loss_targets query (T3 passage) = Inr [0..<length query]"
proof -
  from retrieval_inputs_lengths [OF assms(1)] assms(2,3)
  have l: "length passage = length query" by simp
  have "query \<noteq> []" using retrieval_inputs_lengths [OF assms(1)] assms(4) by auto
  then show ?thesis using l by (simp add: loss_targets_def map_idI)
qed

text \<open>
  C1. One entity pair (\<open>b = 1\<close>), groups of size \<open>N = 2\<close>, embeddings in three
  dimensions: the head is \<open>e\<^sub>1\<close>, the tail \<open>e\<^sub>2\<close>, each description group is the
  entity's own vector followed by the distractor \<open>e\<^sub>3\<close>. The code computes the targets
  \<open>[0, 1]\<close> on the logits \<open>[[1, 0, 0, 0], [0, 0, 1, 0]]\<close>, so row 1 is scored at a
  column that holds a zero and \<open>loss1 = (2 log (e + 3) - 1) / 2\<close>. With the passages
  flattened to \<open>[2 N, d]\<close>, as the claim has it, the targets are \<open>[0, 2]\<close> and the
  loss is \<open>log (e + 3) - 1\<close>.
\<close>

theorem forward_targets_not_group_aligned:
  "retrieval_inputs [[[1, 0, 0], [0, 0, 1]]] [[[1, 0, 0], [0, 0, 1]]]
                    [[[0, 1, 0], [0, 0, 1]]] [[[0, 1, 0], [0, 0, 1]]]
     = Inr ([[1, 0, 0], [0, 1, 0]], [[[1, 0, 0], [0, 0, 1]], [[0, 1, 0], [0, 0, 1]]])
   \<and> loss_targets [[1, 0, 0], [0, 1, 0]] (T3 [[[1, 0, 0], [0, 0, 1]], [[0, 1, 0], [0, 0, 1]]])
     = Inr [0, 1]
   \<and> dense_score (init example_args) [[1, 0, 0], [0, 1, 0]]
        (T3 [[[1, 0, 0], [0, 0, 1]], [[0, 1, 0], [0, 0, 1]]])
     = Inr [[1, 0, 0, 0], [0, 0, 1, 0]]
   \<and> forward_loss1 (init example_args) [[[1, 0, 0], [0, 0, 1]]] [[[1, 0, 0], [0, 0, 1]]]
                    [[[0, 1, 0], [0, 0, 1]]] [[[0, 1, 0], [0, 0, 1]]]
     = Inr ((2 * ln (exp 1 + 3) - 1) / 2)
   \<and> loss_targets [[1, 0, 0], [0, 1, 0]] (T2 [[1, 0, 0], [0, 0, 1], [0, 1, 0], [0, 0, 1]])
     = Inr [0, 2]
   \<and> entity_reconstruction_loss (init example_args) [[1, 0, 0], [0, 1, 0]]
        (T2 [[1, 0, 0], [0, 0, 1], [0, 1, 0], [0, 0, 1]])
     = Inr (ln (exp 1 + 3) - 1)"
proof -
  have T: "temperature (init example_args) = 1" by (rule example_state_simps)
  have u: "[0..<2] = [0, 1]" by (simp add: upt_rec)
  have c: "3 + exp 1 = exp 1 + (3::real)" by simp
  have len: "length [1, 0, 0, 0, 0, 0, 1, 0 :: real] = 8" by simp
  have v: "view_rows 2 [1, 0, 0, 0, 0, 0, 1, 0] = Inr [[1, 0, 0, 0], [0, 0, 1, 0]]"
    unfolding view_rows_def by (simp only: len) (simp add: u)
  have ri: "retrieval_inputs [[[1, 0, 0], [0, 0, 1]]] [[[1, 0, 0], [0, 0, 1]]]
                    [[[0, 1, 0], [0, 0, 1]]] [[[0, 1, 0], [0, 0, 1]]]
     = Inr ([[1, 0, 0], [0, 1, 0]], [[[1, 0, 0], [0, 0, 1]], [[0, 1, 0], [0, 0, 1]]])"
    by (simp add: retrieval_inputs_def select0_def cat_mat_def cat_cube_def)
  have t3: "loss_targets [[1, 0, 0], [0, 1, 0]] (T3 [[[1, 0, 0], [0, 0, 1]], [[0, 1, 0], [0, 0, 1]]])
     = Inr [0, 1]"
    by (simp add: loss_targets_def u)
  have d3: "dense_score (init example_args) [[1, 0, 0], [0, 1, 0]]
        (T3 [[[1, 0, 0], [0, 0, 1]], [[0, 1, 0], [0, 0, 1]]])
     = Inr [[1, 0, 0, 0], [0, 0, 1, 0]]"
    by (simp add: dense_score_def compute_similarity_def matmul_t_def dot_def
        v [unfolded numeral_2_eq_2] T)
  have l1: "forward_loss1 (init example_args) [[[1, 0, 0], [0, 0, 1]]] [[[1, 0, 0], [0, 0, 1]]]
                    [[[0, 1, 0], [0, 0, 1]]] [[[0, 1, 0], [0, 0, 1]]]
     = Inr ((2 * ln (exp 1 + 3) - 1) / 2)"
    by (simp add: forward_loss1_def ri entity_reconstruction_loss_def t3 d3 cross_entropy_def c)
  have t2: "loss_targets [[1, 0, 0], [0, 1, 0]] (T2 [[1, 0, 0], [0, 0, 1], [0, 1, 0], [0, 0, 1]])
     = Inr [0, 2]"
    using loss_targets_2d [of "[[1, 0, 0], [0, 1, 0]]" 2
        "[[1, 0, 0], [0, 0, 1], [0, 1, 0], [0, 0, 1]]" 2]
    by (simp add: u)
  have d2: "dense_score (init example_args) [[1, 0, 0], [0, 1, 0]]
        (T2 [[1, 0, 0], [0, 0, 1], [0, 1, 0], [0, 0, 1]])
     = Inr [[1, 0, 0, 0], [0, 0, 1, 0]]"
    by (simp add: dense_score_def compute_similarity_def matmul_t_def dot_def
        v [unfolded numeral_2_eq_2] T)
  have l2: "entity_reconstruction_loss (init example_args) [[1, 0, 0], [0, 1, 0]]
        (T2 [[1, 0, 0], [0, 0, 1], [0, 1, 0], [0, 0, 1]])
     = Inr (ln (exp 1 + 3) - 1)"
    by (simp add: entity_reconstruction_loss_def t2 d2 cross_entropy_def c)
  show ?thesis using ri t3 d3 l1 t2 l2 by blast
qed

end
